theory Spec2Isabelle
  imports Complex_Main
begin

section \<open>JavaScript values\<close>

text \<open>
  A JavaScript string is a sequence of UTF-16 code units. The literals of \<^verbatim>\<open>server.js\<close>
  that are not ASCII are written as their code units; \<open>str\<close> embeds an ASCII literal.
\<close>

type_synonym jstring = "nat list"

definition str :: "string \<Rightarrow> jstring" where
  "str s = map of_char s"

text \<open>
  The values a parsed JSON document is made of, and \<open>undefined\<close>, which a read of a
  missing property yields. Numbers are the integers (the lengths and status codes the
  handler meets); an object is the list of its own properties in insertion order.
\<close>

datatype jv =
    JUndefined
  | JNull
  | JBool bool
  | JNum int
  | JStr jstring
  | JArr "jv list"
  | JObj "(jstring \<times> jv) list"

text \<open>What axios hands over: \<open>response.status\<close> and \<open>response.data\<close>.\<close>

record axios_response =
  status :: int
  data :: jv

text \<open>
  What can be thrown inside the handler: a \<open>TypeError\<close> of the language (a property read
  on \<open>undefined\<close> or \<open>null\<close>, a call of something that is no function), and the error
  axios rejects with, whose \<open>response\<close> is present exactly when the upstream answered.
\<close>

datatype exn = TypeError | AxiosError "axios_response option"

definition bind :: "exn + 'a \<Rightarrow> ('a \<Rightarrow> exn + 'b) \<Rightarrow> exn + 'b" where
  "bind m f = (case m of Inl e \<Rightarrow> Inl e | Inr x \<Rightarrow> f x)"

fun decimal :: "nat \<Rightarrow> jstring" where
  "decimal n = (if n < 10 then [48 + n] else decimal (n div 10) @ [48 + n mod 10])"

declare decimal.simps [simp del]

text \<open>\<open>!v\<close> is \<open>\<not> truthy v\<close>.\<close>

fun truthy :: "jv \<Rightarrow> bool" where
  "truthy JUndefined = False"
| "truthy JNull = False"
| "truthy (JBool b) = b"
| "truthy (JNum n) = (n \<noteq> 0)"
| "truthy (JStr s) = (s \<noteq> [])"
| "truthy (JArr xs) = True"
| "truthy (JObj kvs) = True"

text \<open>
  \<open>get v k\<close> is the read \<open>v.k\<close> for the property names the handler writes
  (\<open>records\<close>, \<open>location\<close>, \<open>time\<close>, \<open>length\<close>, \<open>message\<close>, ...): none of them is
  inherited from a prototype, so a value that does not own \<open>k\<close> yields \<open>undefined\<close>,
  and \<open>undefined\<close> and \<open>null\<close> throw.
\<close>

fun get :: "jv \<Rightarrow> jstring \<Rightarrow> exn + jv" where
  "get JUndefined k = Inl TypeError"
| "get JNull k = Inl TypeError"
| "get (JBool b) k = Inr JUndefined"
| "get (JNum n) k = Inr JUndefined"
| "get (JStr s) k = Inr (if k = str ''length'' then JNum (int (length s)) else JUndefined)"
| "get (JArr xs) k = Inr (if k = str ''length'' then JNum (int (length xs)) else JUndefined)"
| "get (JObj kvs) k = Inr (case map_of kvs k of Some v \<Rightarrow> v | None \<Rightarrow> JUndefined)"

text \<open>\<open>idx v i\<close> is the read \<open>v[i]\<close> with a loop counter \<open>i\<close>. On an object the
  property key is the counter in decimal digits.\<close>

fun idx :: "jv \<Rightarrow> nat \<Rightarrow> exn + jv" where
  "idx JUndefined i = Inl TypeError"
| "idx JNull i = Inl TypeError"
| "idx (JBool b) i = Inr JUndefined"
| "idx (JNum n) i = Inr JUndefined"
| "idx (JStr s) i = Inr (if i < length s then JStr [s ! i] else JUndefined)"
| "idx (JArr xs) i = Inr (if i < length xs then xs ! i else JUndefined)"
| "idx (JObj kvs) i = Inr (case map_of kvs (decimal i) of Some v \<Rightarrow> v | None \<Rightarrow> JUndefined)"

text \<open>
  \<open>v + "%"\<close>: the left operand is converted to a string. For \<open>undefined\<close>, \<open>null\<close> and
  the booleans that is a fixed word; for a number, an array or an object it is what the
  runtime's \<open>ToString\<close> gives, which is given as \<open>to_string\<close> and throws where it is
  \<open>None\<close>.
\<close>

fun plus_percent :: "(jv \<Rightarrow> jstring option) \<Rightarrow> jv \<Rightarrow> exn + jstring" where
  "plus_percent to_string (JStr s) = Inr (s @ str ''%'')"
| "plus_percent to_string JUndefined = Inr (str ''undefined%'')"
| "plus_percent to_string JNull = Inr (str ''null%'')"
| "plus_percent to_string (JBool b) = Inr (if b then str ''true%'' else str ''false%'')"
| "plus_percent to_string v =
     (case to_string v of None \<Rightarrow> Inl TypeError | Some s \<Rightarrow> Inr (s @ str ''%''))"

text \<open>What \<open>ToNumber\<close> can give: \<open>NaN\<close>, a number, or an infinity.\<close>

datatype number = NaN | Num rat | Infinity | Minus_Infinity

fun below :: "nat \<Rightarrow> number \<Rightarrow> bool" where
  "below i NaN = False"
| "below i (Num q) = (of_nat i < q)"
| "below i Infinity = True"
| "below i Minus_Infinity = False"

text \<open>
  \<open>i < v\<close> for a loop counter \<open>i\<close>: the right operand is converted to a number,
  \<open>undefined\<close> to \<open>NaN\<close>, which compares false, \<open>null\<close> to 0, \<open>true\<close> to 1. For a
  string, an array or an object the number is what the runtime's \<open>ToNumber\<close> gives,
  which is given as \<open>to_number\<close> and throws where it is \<open>None\<close>.
\<close>

fun less_than :: "(jv \<Rightarrow> number option) \<Rightarrow> nat \<Rightarrow> jv \<Rightarrow> exn + bool" where
  "less_than to_number i (JNum n) = Inr (int i < n)"
| "less_than to_number i JUndefined = Inr False"
| "less_than to_number i JNull = Inr False"
| "less_than to_number i (JBool b) = Inr (b \<and> i < 1)"
| "less_than to_number i v =
     (case to_number v of None \<Rightarrow> Inl TypeError | Some x \<Rightarrow> Inr (below i x))"

section \<open>The city table\<close>

definition CITY_NAME_MAPPING :: "(jstring \<times> jstring) list" where
  "CITY_NAME_MAPPING =
    [(str ''taipei'', [0x81FA, 0x5317, 0x5E02]),
     (str ''newtaipei'', [0x65B0, 0x5317, 0x5E02]),
     (str ''taoyuan'', [0x6843, 0x5712, 0x5E02]),
     (str ''taichung'', [0x81FA, 0x4E2D, 0x5E02]),
     (str ''tainan'', [0x81FA, 0x5357, 0x5E02]),
     (str ''kaohsiung'', [0x9AD8, 0x96C4, 0x5E02])]"

text \<open>
  \<open>CITY_NAME_MAPPING\<close> is an object literal, so \<open>CITY_NAME_MAPPING[cityId]\<close> also finds
  what the object inherits from \<open>Object.prototype\<close>: these properties, all of them
  functions but \<open>__proto__\<close>, which is the prototype object itself.
\<close>

definition Object_prototype :: "jstring list" where
  "Object_prototype =
    [str ''constructor'', str ''__defineGetter__'', str ''__defineSetter__'',
     str ''hasOwnProperty'', str ''__lookupGetter__'', str ''__lookupSetter__'',
     str ''isPrototypeOf'', str ''propertyIsEnumerable'', str ''toString'',
     str ''valueOf'', str ''__proto__'', str ''toLocaleString'']"

datatype property = Own jstring | Inherited jstring

definition lookup_city :: "jstring \<Rightarrow> property option" where
  "lookup_city k =
     (case map_of CITY_NAME_MAPPING k of
        Some v \<Rightarrow> Some (Own v)
      | None \<Rightarrow> if k \<in> set Object_prototype then Some (Inherited k) else None)"

text \<open>\<open>!locationName\<close>: \<open>undefined\<close> and the empty string are falsy, functions and objects
  are not.\<close>

fun not_property :: "property option \<Rightarrow> bool" where
  "not_property None = True"
| "not_property (Some (Own s)) = (s = [])"
| "not_property (Some (Inherited k)) = False"

text \<open>\<open>${locationName}\<close> in a template literal.\<close>

fun String_property :: "property \<Rightarrow> jstring" where
  "String_property (Own s) = s"
| "String_property (Inherited k) =
     (if k = str ''__proto__'' then str ''[object Object]''
      else str ''function '' @ (if k = str ''constructor'' then str ''Object'' else k)
           @ str ''() { [native code] }'')"

text \<open>\<open>xs.join(sep)\<close> on an array of strings.\<close>

fun join :: "jstring \<Rightarrow> jstring list \<Rightarrow> jstring" where
  "join sep [] = []"
| "join sep [x] = x"
| "join sep (x # y # ys) = x @ sep @ join sep (y # ys)"

text \<open>The value of \<open>v.k\<close> where the read does not throw.\<close>

definition field :: "jv \<Rightarrow> jstring \<Rightarrow> jv" where
  "field v k = (case get v k of Inr x \<Rightarrow> x | Inl e \<Rightarrow> JUndefined)"

text \<open>The value of \<open>v[i]\<close> where the read does not throw.\<close>

definition item :: "jv \<Rightarrow> nat \<Rightarrow> jv" where
  "item v i = (case idx v i of Inr x \<Rightarrow> x | Inl e \<Rightarrow> JUndefined)"

section \<open>Requests, responses, the environment\<close>

text \<open>The upstream request: the URL and the two query parameters given to \<open>axios.get\<close>.\<close>

record request =
  url :: jstring
  Authorization :: jstring
  locationName :: property

datatype axios_result = Resolved axios_response | Rejected "axios_response option"

record forecast =
  startTime :: jv
  endTime :: jv
  weather :: jv
  rain :: jv
  minTemp :: jv
  maxTemp :: jv
  comfort :: jv
  windSpeed :: jv

record weatherData =
  city :: jv
  updateTime :: jv
  forecasts :: "forecast list"

text \<open>
  The bodies given to \<open>res.json\<close>: \<open>{success: true, data}\<close>, \<open>{error, message}\<close> with
  \<open>details\<close> when the handler gives them, and \<open>{status, timestamp}\<close> of the health route.
\<close>

datatype body =
    Success (result: weatherData)
  | Failure (error: jstring) (message: jv) (details: "jv option")
  | Health jstring jstring

record response =
  statusCode :: int
  body :: body

text \<open>
  What a request can depend on: the credential read from the process environment at
  start-up, the upstream as seen through axios, the clock, and three operations of the
  JavaScript runtime, which are no code of this program: \<open>String.prototype.toLowerCase\<close>,
  and the conversions \<open>ToString\<close> and \<open>ToNumber\<close> of a value (\<open>None\<close> where the
  conversion throws a \<open>TypeError\<close>).
\<close>

record env =
  CWA_API_KEY :: "jstring option"
  axios_get :: "request \<Rightarrow> axios_result"
  clock :: jstring
  toLowerCase :: "jstring \<Rightarrow> jstring"
  ToString :: "jv \<Rightarrow> jstring option"
  ToNumber :: "jv \<Rightarrow> number option"

record req =
  cityId :: jstring
  originalUrl :: jstring

text \<open>A handler either sends one response or its promise rejects with what was thrown.\<close>

datatype outcome = Sent response | Threw exn

definition CWA_API_BASE_URL :: jstring where
  "CWA_API_BASE_URL = str ''https://opendata.cwa.gov.tw/api''"

section \<open>The error responses\<close>

text \<open>HTTP 400, \<open>{error, message}\<close> (lines 43 to 46; the code units are those of the
  literals there): the message quotes the path segment as it came and lists
  \<open>Object.keys(CITY_NAME_MAPPING).join(', ')\<close>.\<close>

definition InvalidCity :: "jstring \<Rightarrow> response" where
  "InvalidCity given =
     \<lparr>statusCode = 400,
      body = Failure [0x7121, 0x6548, 0x7684, 0x57CE, 0x5E02, 0x20, 0x49, 0x44]
        (JStr ([0x4E0D, 0x652F, 0x63F4, 0x67E5, 0x8A62, 0x6B64, 0x57CE, 0x5E02, 0x3A, 0x20]
               @ given @ [0xFF0C, 0x8ACB, 0x4F7F, 0x7528, 0x20]
               @ join (str '', '') (map fst CITY_NAME_MAPPING)))
        None\<rparr>"

text \<open>HTTP 500, \<open>{error, message}\<close> (lines 51 to 54): the credential is not set.\<close>

definition ServerMisconfigured :: response where
  "ServerMisconfigured =
     \<lparr>statusCode = 500,
      body = Failure [0x4F3A, 0x670D, 0x5668, 0x8A2D, 0x5B9A, 0x932F, 0x8AA4]
        (JStr ([0x8ACB, 0x5728, 0x20, 0x2E, 0x65, 0x6E, 0x76, 0x20, 0x6A94, 0x6848,
                0x4E2D, 0x8A2D, 0x5B9A, 0x20] @ str ''CWA_API_KEY''))
        None\<rparr>"

text \<open>HTTP 404, \<open>{error, message}\<close> (lines 73 to 76): the message holds
  \<open>${locationName}\<close>.\<close>

definition NoData :: "property \<Rightarrow> response" where
  "NoData name =
     \<lparr>statusCode = 404,
      body = Failure [0x67E5, 0x7121, 0x8CC7, 0x6599]
        (JStr ([0x7121, 0x6CD5, 0x53D6, 0x5F97, 0x20] @ String_property name
               @ [0x20, 0x5929, 0x6C23, 0x8CC7, 0x6599]))
        None\<rparr>"

text \<open>The upstream's status, \<open>{error, message, details}\<close> (lines 137 to 141), with
  \<open>message = error.response.data.message || "..."\<close> and \<open>details\<close> the upstream body.\<close>

definition UpstreamError :: "axios_response \<Rightarrow> jv \<Rightarrow> response" where
  "UpstreamError r m =
     \<lparr>statusCode = status r,
      body = Failure (str ''CWA API '' @ [0x932F, 0x8AA4])
        (if truthy m then m
         else JStr [0x7121, 0x6CD5, 0x53D6, 0x5F97, 0x5929, 0x6C23, 0x8CC7, 0x6599])
        (Some (data r))\<rparr>"

text \<open>HTTP 500, \<open>{error, message}\<close> (lines 143 to 146): the last statement of the
  \<open>catch\<close> block.\<close>

definition ServerError :: response where
  "ServerError =
     \<lparr>statusCode = 500,
      body = Failure [0x4F3A, 0x670D, 0x5668, 0x932F, 0x8AA4]
        (JStr [0x7121, 0x6CD5, 0x53D6, 0x5F97, 0x5929, 0x6C23, 0x8CC7, 0x6599, 0xFF0C,
               0x8ACB, 0x7A0D, 0x5F8C, 0x518D, 0x8A66])
        None\<rparr>"

section \<open>getWeatherByCity\<close>

text \<open>The callback of \<open>weatherElements.forEach\<close>, for the slot of index \<open>i\<close>: first
  \<open>const value = element.time[i].parameter\<close>, then the \<open>switch\<close> on \<open>element.elementName\<close>,
  which compares with \<open>===\<close>.\<close>

definition parameter_at :: "jv \<Rightarrow> nat \<Rightarrow> exn + jv" where
  "parameter_at element i =
     bind (get element (str ''time'')) (\<lambda>t.
     bind (idx t i) (\<lambda>ti. get ti (str ''parameter'')))"

definition element_callback :: "env \<Rightarrow> nat \<Rightarrow> forecast \<Rightarrow> jv \<Rightarrow> exn + forecast" where
  "element_callback e i f element =
     bind (parameter_at element i) (\<lambda>value.
     bind (get element (str ''elementName'')) (\<lambda>name.
       if name = JStr (str ''Wx'') then
         bind (get value (str ''parameterName'')) (\<lambda>p. Inr (f\<lparr>weather := p\<rparr>))
       else if name = JStr (str ''PoP'') then
         bind (get value (str ''parameterName'')) (\<lambda>p.
         bind (plus_percent (ToString e) p) (\<lambda>s. Inr (f\<lparr>rain := JStr s\<rparr>)))
       else if name = JStr (str ''MinT'') then
         bind (get value (str ''parameterName'')) (\<lambda>p. Inr (f\<lparr>minTemp := p\<rparr>))
       else if name = JStr (str ''MaxT'') then
         bind (get value (str ''parameterName'')) (\<lambda>p. Inr (f\<lparr>maxTemp := p\<rparr>))
       else if name = JStr (str ''CI'') then
         bind (get value (str ''parameterName'')) (\<lambda>p. Inr (f\<lparr>comfort := p\<rparr>))
       else if name = JStr (str ''WS'') then
         bind (get value (str ''parameterName'')) (\<lambda>p. Inr (f\<lparr>windSpeed := p\<rparr>))
       else Inr f))"

fun forEach_elements :: "env \<Rightarrow> nat \<Rightarrow> forecast \<Rightarrow> jv list \<Rightarrow> exn + forecast" where
  "forEach_elements e i f [] = Inr f"
| "forEach_elements e i f (element # rest) =
     bind (element_callback e i f element) (\<lambda>f'. forEach_elements e i f' rest)"

text \<open>Only an array has \<open>forEach\<close>; on anything else the call throws.\<close>

fun forEach :: "env \<Rightarrow> jv \<Rightarrow> nat \<Rightarrow> forecast \<Rightarrow> exn + forecast" where
  "forEach e (JArr es) i f = forEach_elements e i f es"
| "forEach e v i f = Inl TypeError"

text \<open>The body of the \<open>for\<close> loop up to \<open>push\<close>: the slot of index \<open>i\<close>.\<close>

definition build_forecast :: "env \<Rightarrow> jv \<Rightarrow> nat \<Rightarrow> exn + forecast" where
  "build_forecast e weatherElements i =
     bind (idx weatherElements 0) (\<lambda>e0.
     bind (get e0 (str ''time'')) (\<lambda>t.
     bind (idx t i) (\<lambda>ti.
     bind (get ti (str ''startTime'')) (\<lambda>st.
     bind (get ti (str ''endTime'')) (\<lambda>et.
       forEach e weatherElements i
         \<lparr>startTime = st, endTime = et, weather = JStr [], rain = JStr [],
          minTemp = JStr [], maxTemp = JStr [], comfort = JStr [],
          windSpeed = JStr []\<rparr>)))))"

function for_loop ::
  "env \<Rightarrow> jv \<Rightarrow> jv \<Rightarrow> nat \<Rightarrow> forecast list \<Rightarrow> exn + forecast list" where
  "for_loop e weatherElements timeCount i acc =
     (case less_than (ToNumber e) i timeCount of
        Inl x \<Rightarrow> Inl x
      | Inr False \<Rightarrow> Inr acc
      | Inr True \<Rightarrow>
          (case build_forecast e weatherElements i of
             Inl x \<Rightarrow> Inl x
           | Inr f \<Rightarrow> for_loop e weatherElements timeCount (Suc i) (acc @ [f])))"
  by pat_completeness auto

text \<open>
  The loop ends whatever \<open>timeCount\<close> is: a slot is built at index \<open>j\<close> only where
  \<open>weatherElements[0].time[j]\<close> is there, and a value has finitely many indices (an
  object, because \<open>decimal\<close> is injective). The number of such indices from \<open>i\<close> on
  goes down with every run of the body.
\<close>

termination
  apply (relation "measure (\<lambda>(e, w, tc, i, acc).
           card {j. i \<le> j \<and> (\<exists>g. build_forecast e w j = Inr g)})")
   apply simp
  subgoal premises p for e w tc i acc b f
  proof -
    have la: "last (decimal n) = 48 + n mod 10" for n
      by (subst decimal.simps) simp
    have bu: "butlast (decimal n) = (if n < 10 then [] else decimal (n div 10))" for n
      by (subst decimal.simps) simp
    have ne: "decimal n \<noteq> []" for n
      by (subst decimal.simps) simp
    have eq: "decimal m = decimal n \<Longrightarrow> m = n" for m n
    proof (induction m arbitrary: n rule: decimal.induct)
      case (1 m)
      from "1.prems" have l: "m mod 10 = n mod 10"
        using la [of m] la [of n] by simp
      from "1.prems" have b: "butlast (decimal m) = butlast (decimal n)"
        by simp
      show ?case
      proof (cases "m < 10")
        case True
        with b have "n < 10"
          using ne [of "n div 10"] by (simp add: bu split: if_splits)
        with True l show ?thesis
          by simp
      next
        case False
        with b have n: "\<not> n < 10" and d: "decimal (m div 10) = decimal (n div 10)"
          using ne [of "m div 10"] by (simp_all add: bu split: if_splits)
        from "1.IH" [OF False d] have "m div 10 = n div 10" .
        with l show ?thesis
          by (metis div_mult_mod_eq)
      qed
    qed
    have inj: "inj decimal"
      by (rule injI) (rule eq)
    have fin_idx: "finite {j. \<exists>x. idx t j = Inr x \<and> x \<noteq> JUndefined}" for t
    proof (cases t)
      case (JStr s)
      then have "{j. \<exists>x. idx t j = Inr x \<and> x \<noteq> JUndefined} \<subseteq> {..<length s}"
        by (auto split: if_splits)
      then show ?thesis
        by (rule finite_subset) simp
    next
      case (JArr xs)
      then have "{j. \<exists>x. idx t j = Inr x \<and> x \<noteq> JUndefined} \<subseteq> {..<length xs}"
        by (auto split: if_splits)
      then show ?thesis
        by (rule finite_subset) simp
    next
      case (JObj kvs)
      then have "{j. \<exists>x. idx t j = Inr x \<and> x \<noteq> JUndefined} \<subseteq> decimal -` dom (map_of kvs)"
        by (auto split: option.splits)
      moreover have "finite (decimal -` dom (map_of kvs))"
        using inj by (simp add: finite_vimageI finite_dom_map_of)
      ultimately show ?thesis
        by (rule finite_subset)
    qed simp_all
    have sub: "{j. \<exists>g. build_forecast e w j = Inr g}
        \<subseteq> {j. \<exists>x. idx (field (item w 0) (str ''time'')) j = Inr x \<and> x \<noteq> JUndefined}"
    proof
      fix j
      assume "j \<in> {j. \<exists>g. build_forecast e w j = Inr g}"
      then obtain g where "build_forecast e w j = Inr g"
        by blast
      then obtain e0 t ti st where "idx w 0 = Inr e0" and "get e0 (str ''time'') = Inr t"
        and "idx t j = Inr ti" and "get ti (str ''startTime'') = Inr st"
        by (auto simp: build_forecast_def bind_def split: sum.splits)
      then show "j \<in> {j. \<exists>x. idx (field (item w 0) (str ''time'')) j = Inr x
          \<and> x \<noteq> JUndefined}"
        by (auto simp: field_def item_def)
    qed
    have fin: "finite {j. i \<le> j \<and> (\<exists>g. build_forecast e w j = Inr g)}"
      by (rule finite_subset [OF _ fin_idx [of "field (item w 0) (str ''time'')"]])
        (use sub in blast)
    have "i \<in> {j. i \<le> j \<and> (\<exists>g. build_forecast e w j = Inr g)}"
      using p by simp
    moreover have "i \<notin> {j. Suc i \<le> j \<and> (\<exists>g. build_forecast e w j = Inr g)}"
      by simp
    moreover have "{j. Suc i \<le> j \<and> (\<exists>g. build_forecast e w j = Inr g)}
        \<subseteq> {j. i \<le> j \<and> (\<exists>g. build_forecast e w j = Inr g)}"
      by auto
    ultimately have "{j. Suc i \<le> j \<and> (\<exists>g. build_forecast e w j = Inr g)}
        \<subset> {j. i \<le> j \<and> (\<exists>g. build_forecast e w j = Inr g)}"
      by blast
    then have "card {j. Suc i \<le> j \<and> (\<exists>g. build_forecast e w j = Inr g)}
        < card {j. i \<le> j \<and> (\<exists>g. build_forecast e w j = Inr g)}"
      using fin by (simp add: psubset_card_mono)
    then show ?thesis
      by simp
  qed
  done

declare for_loop.simps [simp del]

text \<open>The \<open>try\<close> block after the upstream has answered with \<open>response.data\<close>.\<close>

definition reshape :: "env \<Rightarrow> property \<Rightarrow> jv \<Rightarrow> exn + response" where
  "reshape e name response_data =
     bind (get response_data (str ''records'')) (\<lambda>records.
     bind (get records (str ''location'')) (\<lambda>location.
     bind (idx location 0) (\<lambda>locationData.
       if \<not> truthy locationData then Inr (NoData name)
       else
         bind (get locationData (str ''locationName'')) (\<lambda>c.
         bind (get records (str ''datasetDescription'')) (\<lambda>u.
         bind (get locationData (str ''weatherElement'')) (\<lambda>weatherElements.
         bind (idx weatherElements 0) (\<lambda>e0.
         bind (get e0 (str ''time'')) (\<lambda>t.
         bind (get t (str ''length'')) (\<lambda>timeCount.
         bind (for_loop e weatherElements timeCount 0 []) (\<lambda>fs.
           Inr \<lparr>statusCode = 200,
                body = Success \<lparr>city = c, updateTime = u, forecasts = fs\<rparr>\<rparr>))))))))))"

text \<open>\<open>!CWA_API_KEY\<close>: the variable is not set, or set to the empty string.\<close>

fun not_key :: "jstring option \<Rightarrow> bool" where
  "not_key None = True"
| "not_key (Some k) = (k = [])"

text \<open>The \<open>try\<close> block: the upstream requests it issues, and its result.\<close>

definition try_block :: "env \<Rightarrow> property \<Rightarrow> request list \<times> (exn + response)" where
  "try_block e name =
     (if not_key (CWA_API_KEY e) then ([], Inr ServerMisconfigured)
      else
        (let rq = \<lparr>url = CWA_API_BASE_URL @ str ''/v1/rest/datastore/F-C0032-001'',
                   Authorization = the (CWA_API_KEY e), locationName = name\<rparr>
         in ([rq],
             case axios_get e rq of
               Rejected r \<Rightarrow> Inl (AxiosError r)
             | Resolved r \<Rightarrow> reshape e name (data r))))"

text \<open>
  The \<open>catch\<close> block. \<open>error.response\<close> is set on the error of axios when the upstream
  answered, and on nothing else that is thrown. Reading \<open>message\<close> of a body that is
  \<open>null\<close> or \<open>undefined\<close> throws again, out of the handler. The line written by
  \<open>console.error\<close> has no part in the response and is left out.
\<close>

fun catch_block :: "exn \<Rightarrow> outcome" where
  "catch_block (AxiosError (Some r)) =
     (case get (data r) (str ''message'') of
        Inl e \<Rightarrow> Threw e
      | Inr m \<Rightarrow> Sent (UpstreamError r m))"
| "catch_block e = Sent ServerError"

text \<open>The handler of \<open>GET /api/weather/:cityId\<close>: the upstream requests issued and the
  outcome.\<close>

definition getWeatherByCity :: "env \<Rightarrow> req \<Rightarrow> request list \<times> outcome" where
  "getWeatherByCity e rq =
     (let name = lookup_city (toLowerCase e (cityId rq)) in
      if not_property name then ([], Sent (InvalidCity (cityId rq)))
      else
        (case try_block e (the name) of
           (calls, Inr r) \<Rightarrow> (calls, Sent r)
         | (calls, Inl x) \<Rightarrow> (calls, catch_block x)))"

text \<open>The handler of \<open>GET /api/health\<close>, which reads the clock.\<close>

definition health :: "env \<Rightarrow> response" where
  "health e = \<lparr>statusCode = 200, body = Health (str ''OK'') (clock e)\<rparr>"

section \<open>The documented response shape\<close>

text \<open>
  The upstream's documented answer is
  \<open>{records: {datasetDescription, location: [{locationName, weatherElement:
  [{elementName, time: [{startTime, endTime, parameter: {parameterName}}]}]}]}}\<close>,
  every element with a \<open>time\<close> array of the same length. The definitions of this
  section say that of a value, and name what the specification says a slot holds;
  they are written from the specification, to be compared with the handler.
\<close>

fun elements :: "jv \<Rightarrow> jv list" where
  "elements (JArr xs) = xs"
| "elements v = []"

text \<open>\<open>element.time[i]\<close> and \<open>element.time[i].parameter.parameterName\<close>.\<close>

definition entry :: "jv \<Rightarrow> nat \<Rightarrow> jv" where
  "entry element i = item (field element (str ''time'')) i"

definition value_at :: "jv \<Rightarrow> nat \<Rightarrow> jv" where
  "value_at element i =
     field (field (entry element i) (str ''parameter'')) (str ''parameterName'')"

text \<open>The elements of an array that carry a name tag.\<close>

definition tagged :: "jstring \<Rightarrow> jv list \<Rightarrow> jv list" where
  "tagged tag es = filter (\<lambda>element. field element (str ''elementName'') = JStr tag) es"


fun text_of :: "jv \<Rightarrow> jstring" where
  "text_of (JStr s) = s"
| "text_of v = []"

definition percent :: "jv \<Rightarrow> jv" where
  "percent v = JStr (text_of v @ str ''%'')"

text \<open>The slot field fed by the elements tagged \<open>tag\<close>: the default \<open>d\<close> when there is
  none, and otherwise what the last of them has at index \<open>i\<close>, through \<open>g\<close>.\<close>

definition copied :: "(jv \<Rightarrow> jv) \<Rightarrow> jstring \<Rightarrow> jv list \<Rightarrow> nat \<Rightarrow> jv \<Rightarrow> jv" where
  "copied g tag es i d =
     (case tagged tag es of [] \<Rightarrow> d | e # r \<Rightarrow> g (value_at (last (e # r)) i))"

definition slot :: "jv list \<Rightarrow> nat \<Rightarrow> forecast" where
  "slot es i =
     \<lparr>startTime = field (entry (hd es) i) (str ''startTime''),
      endTime = field (entry (hd es) i) (str ''endTime''),
      weather = copied id (str ''Wx'') es i (JStr []),
      rain = copied percent (str ''PoP'') es i (JStr []),
      minTemp = copied id (str ''MinT'') es i (JStr []),
      maxTemp = copied id (str ''MaxT'') es i (JStr []),
      comfort = copied id (str ''CI'') es i (JStr []),
      windSpeed = copied id (str ''WS'') es i (JStr [])\<rparr>"

fun is_object :: "jv \<Rightarrow> bool" where
  "is_object (JObj kvs) = True"
| "is_object v = False"

fun is_string :: "jv \<Rightarrow> bool" where
  "is_string (JStr s) = True"
| "is_string v = False"

definition well_formed_entry :: "jv \<Rightarrow> bool" where
  "well_formed_entry t \<longleftrightarrow>
     is_object t \<and> is_object (field t (str ''parameter'')) \<and>
     is_string (field (field t (str ''parameter'')) (str ''parameterName''))"

definition well_formed_element :: "nat \<Rightarrow> jv \<Rightarrow> bool" where
  "well_formed_element n element \<longleftrightarrow>
     is_object element \<and>
     (case field element (str ''time'') of
        JArr ts \<Rightarrow> length ts = n \<and> list_all well_formed_entry ts
      | _ \<Rightarrow> False)"

text \<open>\<open>records.location[0].weatherElement\<close>, and the length of the first element's
  \<open>time\<close> array.\<close>

definition weatherElements_of :: "jv \<Rightarrow> jv" where
  "weatherElements_of d =
     field (item (field (field d (str ''records'')) (str ''location'')) 0) (str ''weatherElement'')"

definition timeCount_of :: "jv \<Rightarrow> nat" where
  "timeCount_of d = length (elements (field (item (weatherElements_of d) 0) (str ''time'')))"

definition well_formed :: "jv \<Rightarrow> bool" where
  "well_formed d \<longleftrightarrow>
     is_object d \<and> is_object (field d (str ''records'')) \<and>
     is_object (item (field (field d (str ''records'')) (str ''location'')) 0) \<and>
     (case field (field d (str ''records'')) (str ''location'') of
        JArr ls \<Rightarrow> True | _ \<Rightarrow> False) \<and>
     (case weatherElements_of d of
        JArr es \<Rightarrow> es \<noteq> [] \<and> list_all (well_formed_element (timeCount_of d)) es
      | _ \<Rightarrow> False)"

section \<open>Concrete environments\<close>

text \<open>\<open>toLowerCase\<close> on the ASCII letters, where it adds 32 to a capital.\<close>

definition toLowerCase_ascii :: "jstring \<Rightarrow> jstring" where
  "toLowerCase_ascii s = map (\<lambda>c. if 65 \<le> c \<and> c \<le> 90 then c + 32 else c) s"

text \<open>An upstream that cannot be reached, and upstreams that answer every request alike.\<close>

definition unreachable :: "request \<Rightarrow> axios_result" where
  "unreachable q = Rejected None"

definition answers :: "int \<Rightarrow> jv \<Rightarrow> request \<Rightarrow> axios_result" where
  "answers s d q = Resolved \<lparr>status = s, data = d\<rparr>"

definition fails :: "int \<Rightarrow> jv \<Rightarrow> request \<Rightarrow> axios_result" where
  "fails s d q = Rejected (Some \<lparr>status = s, data = d\<rparr>)"

text \<open>
  The conversions of the environment of the examples. \<open>String_of\<close> is \<open>ToString\<close> as
  JavaScript has it on these values, for integers below \<open>2^53\<close> in size: an array is
  its elements joined by commas, with nothing for \<open>undefined\<close> and \<open>null\<close>; an object
  is \<open>[object Object]\<close>, unless a property \<open>toString\<close> of its own hides the inherited
  method, and then the conversion throws. \<open>Number_of\<close> reads that string as a number
  where it is empty or made of digits, and takes any other for \<open>NaN\<close>; JavaScript reads
  more strings as numbers than that, none of which the examples meet.
\<close>

fun String_of :: "jv \<Rightarrow> jstring option" where
  "String_of JUndefined = Some (str ''undefined'')"
| "String_of JNull = Some (str ''null'')"
| "String_of (JBool b) = Some (if b then str ''true'' else str ''false'')"
| "String_of (JNum n) =
     Some (if n < 0 then str ''-'' @ decimal (nat (- n)) else decimal (nat n))"
| "String_of (JStr s) = Some s"
| "String_of (JArr xs) =
     map_option (join (str '',''))
       (those (map (\<lambda>x. if x = JUndefined \<or> x = JNull then Some [] else String_of x) xs))"
| "String_of (JObj kvs) =
     (if str ''toString'' \<in> fst ` set kvs then None else Some (str ''[object Object]''))"

definition Number_of :: "jv \<Rightarrow> number option" where
  "Number_of v =
     map_option
       (\<lambda>s. if list_all (\<lambda>c. 48 \<le> c \<and> c \<le> 57) s
            then Num (of_nat (foldl (\<lambda>a c. 10 * a + (c - 48)) 0 s))
            else NaN)
       (String_of v)"

definition server :: "jstring option \<Rightarrow> (request \<Rightarrow> axios_result) \<Rightarrow> env" where
  "server key upstream =
     \<lparr>CWA_API_KEY = key, axios_get = upstream, clock = str ''2024-01-01T00:00:00.000Z'',
      toLowerCase = toLowerCase_ascii, ToString = String_of, ToNumber = Number_of\<rparr>"

definition weather_request :: "string \<Rightarrow> req" where
  "weather_request c = \<lparr>cityId = str c, originalUrl = str ''/api/weather/'' @ str c\<rparr>"

text \<open>Upstream bodies: \<open>{records: {}}\<close>, \<open>{records: {location: []}}\<close>,
  \<open>{records: {location: [{locationName: "X", weatherElement: []}]}}\<close>,
  \<open>{message: ""}\<close> and \<open>{message: "down"}\<close>.\<close>

definition no_location :: jv where
  "no_location = JObj [(str ''records'', JObj [])]"

definition empty_location :: jv where
  "empty_location = JObj [(str ''records'', JObj [(str ''location'', JArr [])])]"

definition no_elements :: jv where
  "no_elements =
     JObj [(str ''records'', JObj [(str ''location'',
       JArr [JObj [(str ''locationName'', JStr (str ''X'')),
                   (str ''weatherElement'', JArr [])]])])]"

definition empty_message :: jv where
  "empty_message = JObj [(str ''message'', JStr [])]"

definition down_message :: jv where
  "down_message = JObj [(str ''message'', JStr (str ''down''))]"

text \<open>A well-formed upstream body for two time intervals, with elements tagged
  \<open>Wx\<close>, \<open>PoP\<close> and \<open>UVI\<close>, which is none of the six tags.\<close>

definition sample_entry :: "string \<Rightarrow> string \<Rightarrow> string \<Rightarrow> jv" where
  "sample_entry s t p =
     JObj [(str ''startTime'', JStr (str s)), (str ''endTime'', JStr (str t)),
           (str ''parameter'', JObj [(str ''parameterName'', JStr (str p)),
                                     (str ''parameterValue'', JStr (str ''1''))])]"

definition sample_element :: "string \<Rightarrow> string \<Rightarrow> string \<Rightarrow> jv" where
  "sample_element tag p q =
     JObj [(str ''elementName'', JStr (str tag)),
           (str ''time'', JArr [sample_entry ''06:00'' ''18:00'' p,
                                sample_entry ''18:00'' ''06:00'' q])]"

definition sample_elements :: "jv list" where
  "sample_elements =
     [sample_element ''Wx'' ''sunny'' ''cloudy'', sample_element ''UVI'' ''7'' ''0'',
      sample_element ''PoP'' ''10'' ''30'']"

definition sample :: jv where
  "sample =
     JObj [(str ''success'', JStr (str ''true'')),
           (str ''records'',
            JObj [(str ''datasetDescription'', JStr (str ''36h'')),
                  (str ''location'',
                   JArr [JObj [(str ''locationName'', JStr [0x81FA, 0x5357, 0x5E02]),
                               (str ''weatherElement'', JArr sample_elements)]])])]"


text \<open>A body whose \<open>time\<close> is an object with the property \<open>0\<close> and the string \<open>"1"\<close>
  as \<open>length\<close>, and whose \<open>PoP\<close> element has the array \<open>[1, 2]\<close> as \<open>parameterName\<close>.\<close>

definition counted_sample :: jv where
  "counted_sample =
     JObj [(str ''records'',
            JObj [(str ''datasetDescription'', JStr (str ''36h'')),
                  (str ''location'',
                   JArr [JObj [(str ''locationName'', JStr (str ''X'')),
                               (str ''weatherElement'',
                                JArr [JObj [(str ''elementName'', JStr (str ''PoP'')),
                                            (str ''time'',
                                             JObj [(str ''0'',
                                                    JObj [(str ''startTime'', JStr (str ''06:00'')),
                                                          (str ''endTime'', JStr (str ''18:00'')),
                                                          (str ''parameter'',
                                                           JObj [(str ''parameterName'',
                                                                  JArr [JNum 1, JNum 2])])]),
                                                   (str ''length'', JStr (str ''1''))])]])]])])]"



text \<open>The request the handler gives to axios.\<close>

definition upstream_request :: "jstring \<Rightarrow> property \<Rightarrow> request" where
  "upstream_request key name =
     \<lparr>url = str ''https://opendata.cwa.gov.tw/api/v1/rest/datastore/F-C0032-001'',
      Authorization = key, locationName = name\<rparr>"

section \<open>Basic facts\<close>

lemma str_eq_iff [simp]: "str a = str b \<longleftrightarrow> a = b"
  by (simp add: str_def inj_of_char)

lemma bind_Inl [simp]: "bind (Inl e) f = Inl e"
  by (simp add: bind_def)

lemma bind_Inr [simp]: "bind (Inr x) f = f x"
  by (simp add: bind_def)

lemma get_total: "v \<noteq> JUndefined \<Longrightarrow> v \<noteq> JNull \<Longrightarrow> get v k = Inr (field v k)"
  by (cases v) (simp_all add: field_def)

lemma truthy_get: "truthy v \<Longrightarrow> get v k = Inr (field v k)"
  by (cases v) (simp_all add: field_def)

lemma get_Inr_get: "get v j = Inr x \<Longrightarrow> get v k = Inr (field v k)"
  by (cases v) (simp_all add: field_def)

lemma lookup_city_own:
  "map_of CITY_NAME_MAPPING k = Some v \<Longrightarrow> lookup_city k = Some (Own v)"
  by (simp add: lookup_city_def)

lemma own_name_nonempty: "map_of CITY_NAME_MAPPING k = Some v \<Longrightarrow> v \<noteq> []"
  by (auto simp: CITY_NAME_MAPPING_def split: if_splits)

lemma valid_city_try_block:
  "map_of CITY_NAME_MAPPING (toLowerCase e (cityId rq)) = Some v \<Longrightarrow>
   getWeatherByCity e rq =
     (case try_block e (Own v) of
        (calls, Inr r) \<Rightarrow> (calls, Sent r)
      | (calls, Inl x) \<Rightarrow> (calls, catch_block x))"
  by (simp add: getWeatherByCity_def lookup_city_own own_name_nonempty)

lemma url_eq:
  "CWA_API_BASE_URL @ str ''/v1/rest/datastore/F-C0032-001'' =
   str ''https://opendata.cwa.gov.tw/api/v1/rest/datastore/F-C0032-001''"
  by (simp add: CWA_API_BASE_URL_def str_def)

lemma try_block_key:
  "CWA_API_KEY e = Some key \<Longrightarrow> key \<noteq> [] \<Longrightarrow>
   try_block e name =
     ([upstream_request key name],
      case axios_get e (upstream_request key name) of
        Rejected r \<Rightarrow> Inl (AxiosError r)
      | Resolved r \<Rightarrow> reshape e name (data r))"
  by (simp add: try_block_def upstream_request_def url_eq Let_def)

text \<open>A valid city with a credential: one upstream request, and the outcome by what
  the upstream does.\<close>

lemma valid_city_key:
  assumes "map_of CITY_NAME_MAPPING (toLowerCase e (cityId rq)) = Some v"
    and "CWA_API_KEY e = Some key" and "key \<noteq> []"
  shows "getWeatherByCity e rq =
     ([upstream_request key (Own v)],
      case axios_get e (upstream_request key (Own v)) of
        Rejected x \<Rightarrow> catch_block (AxiosError x)
      | Resolved r \<Rightarrow>
          (case reshape e (Own v) (data r) of Inr resp \<Rightarrow> Sent resp | Inl x \<Rightarrow> catch_block x))"
  using assms
  by (simp add: valid_city_try_block try_block_key split: axios_result.splits sum.splits)

text \<open>The concrete requests of the examples below.\<close>

lemma example_city:
  "map_of CITY_NAME_MAPPING (toLowerCase (server k u) (cityId (weather_request ''Tainan'')))
     = Some [0x81FA, 0x5357, 0x5E02]"
  by (simp add: server_def weather_request_def toLowerCase_ascii_def str_def
      CITY_NAME_MAPPING_def)

lemma example_key: "CWA_API_KEY (server k u) = k"
  by (simp add: server_def)

lemma example_upstream: "axios_get (server k u) = u"
  by (simp add: server_def)

lemma str_nonempty: "str ''KEY'' \<noteq> []"
  by (simp add: str_def)

section \<open>The credential check\<close>



section \<open>Reads that throw\<close>

lemma reshape_no_records:
  "get d (str ''records'') = Inr JUndefined \<Longrightarrow> reshape e name d = Inl TypeError"
  by (simp add: reshape_def)

lemma reshape_no_location:
  "get d (str ''records'') = Inr recs \<Longrightarrow> get recs (str ''location'') = Inr JUndefined \<Longrightarrow>
   reshape e name d = Inl TypeError"
  by (simp add: reshape_def)

lemma reshape_empty_location:
  "get d (str ''records'') = Inr recs \<Longrightarrow> get recs (str ''location'') = Inr (JArr []) \<Longrightarrow>
   reshape e name d = Inr (NoData name)"
  by (simp add: reshape_def)

lemma reshape_empty_weatherElement:
  assumes "get d (str ''records'') = Inr recs" and "get recs (str ''location'') = Inr l"
    and "idx l 0 = Inr ld" and "truthy ld"
    and "get ld (str ''weatherElement'') = Inr (JArr [])"
  shows "reshape e name d = Inl TypeError"
  using assms truthy_get [OF assms(4)] get_Inr_get [OF assms(2)]
  by (simp add: reshape_def)

text \<open>
  C9. The upstream answered, and either \<open>response.data\<close> has no \<open>records\<close>, or the first
  location record is there (truthy) and its \<open>weatherElement\<close> is the empty array. Then
  the read that throws is caught: the handler sends the HTTP 500 envelope
  \<open>{error, message}\<close> of the end of the \<open>catch\<close> block, not \<open>NoData\<close>, and does not throw.
\<close>

theorem empty_weatherElement_or_no_records_ServerError:
  assumes "map_of CITY_NAME_MAPPING (toLowerCase e (cityId rq)) = Some v"
    and "CWA_API_KEY e = Some key" and "key \<noteq> []"
    and "axios_get e (upstream_request key (Own v)) = Resolved r"
    and "get (data r) (str ''records'') = Inr recs"
    and "recs = JUndefined \<or>
         (get recs (str ''location'') = Inr l \<and> idx l 0 = Inr ld \<and> truthy ld \<and>
          get ld (str ''weatherElement'') = Inr (JArr []))"
  shows "getWeatherByCity e rq = ([upstream_request key (Own v)], Sent ServerError)
       \<and> statusCode ServerError = 500 \<and> details (body ServerError) = None"
proof -
  have "reshape e (Own v) (data r) = Inl TypeError"
    using assms(5,6) reshape_no_records reshape_empty_weatherElement by blast
  then show ?thesis
    using assms(1-4) by (simp add: valid_city_key ServerError_def)
qed

theorem empty_weatherElement_witness:
  "getWeatherByCity (server (Some (str ''KEY'')) (answers 200 no_elements))
     (weather_request ''Tainan'')
   = ([upstream_request (str ''KEY'') (Own [0x81FA, 0x5357, 0x5E02])], Sent ServerError)
   \<and> statusCode ServerError = 500 \<and> details (body ServerError) = None"
proof -
  let ?recs = "JObj [(str ''location'',
       JArr [JObj [(str ''locationName'', JStr (str ''X'')),
                   (str ''weatherElement'', JArr [])]])]"
  let ?ld = "JObj [(str ''locationName'', JStr (str ''X'')),
                   (str ''weatherElement'', JArr [])]"
  have u: "axios_get (server (Some (str ''KEY'')) (answers 200 no_elements))
      (upstream_request (str ''KEY'') (Own [0x81FA, 0x5357, 0x5E02]))
    = Resolved \<lparr>status = 200, data = no_elements\<rparr>"
    by (simp add: example_upstream answers_def)
  have r: "get (data \<lparr>status = 200, data = no_elements\<rparr>) (str ''records'') = Inr ?recs"
    by (simp add: no_elements_def)
  have s: "?recs = JUndefined \<or>
         (get ?recs (str ''location'') = Inr (JArr [?ld]) \<and> idx (JArr [?ld]) 0 = Inr ?ld \<and>
          truthy ?ld \<and> get ?ld (str ''weatherElement'') = Inr (JArr []))"
    by simp
  from empty_weatherElement_or_no_records_ServerError
    [OF example_city example_key str_nonempty u r s]
  show ?thesis .
qed

section \<open>No location record\<close>

text \<open>
  C2, as the code has it. The upstream answered a valid city. When \<open>records.location\<close>
  is the empty array, the handler sends HTTP 404 \<open>NoData\<close>, whose message is the source's
  text around the resolved location name. When \<open>records.location\<close> is absent, the read
  of its element 0 throws, and the handler sends the HTTP 500 envelope of the end of
  the \<open>catch\<close> block.
\<close>

theorem empty_location_NoData:
  assumes "map_of CITY_NAME_MAPPING (toLowerCase e (cityId rq)) = Some v"
    and "CWA_API_KEY e = Some key" and "key \<noteq> []"
    and "axios_get e (upstream_request key (Own v)) = Resolved r"
    and "get (data r) (str ''records'') = Inr recs"
  shows "(get recs (str ''location'') = Inr (JArr []) \<longrightarrow>
           getWeatherByCity e rq =
             ([upstream_request key (Own v)],
              Sent \<lparr>statusCode = 404,
                    body = Failure [0x67E5, 0x7121, 0x8CC7, 0x6599]
                      (JStr ([0x7121, 0x6CD5, 0x53D6, 0x5F97, 0x20] @ v
                             @ [0x20, 0x5929, 0x6C23, 0x8CC7, 0x6599]))
                      None\<rparr>))
       \<and> (get recs (str ''location'') = Inr JUndefined \<longrightarrow>
           getWeatherByCity e rq = ([upstream_request key (Own v)], Sent ServerError)
           \<and> statusCode ServerError = 500)"
proof (intro conjI impI)
  assume "get recs (str ''location'') = Inr (JArr [])"
  then have "reshape e (Own v) (data r) = Inr (NoData (Own v))"
    using assms(5) by (rule reshape_empty_location [rotated])
  then show "getWeatherByCity e rq =
             ([upstream_request key (Own v)],
              Sent \<lparr>statusCode = 404,
                    body = Failure [0x67E5, 0x7121, 0x8CC7, 0x6599]
                      (JStr ([0x7121, 0x6CD5, 0x53D6, 0x5F97, 0x20] @ v
                             @ [0x20, 0x5929, 0x6C23, 0x8CC7, 0x6599]))
                      None\<rparr>)"
    using assms(1-4) by (simp add: valid_city_key NoData_def)
next
  assume "get recs (str ''location'') = Inr JUndefined"
  then have "reshape e (Own v) (data r) = Inl TypeError"
    using assms(5) by (rule reshape_no_location [rotated])
  then show "getWeatherByCity e rq = ([upstream_request key (Own v)], Sent ServerError)"
    using assms(1-4) by (simp add: valid_city_key)
next
  show "statusCode ServerError = 500"
    by (simp add: ServerError_def)
qed

theorem empty_location_witness:
  "getWeatherByCity (server (Some (str ''KEY'')) (answers 200 empty_location))
     (weather_request ''Tainan'')
   = ([upstream_request (str ''KEY'') (Own [0x81FA, 0x5357, 0x5E02])],
      Sent \<lparr>statusCode = 404,
            body = Failure [0x67E5, 0x7121, 0x8CC7, 0x6599]
              (JStr [0x7121, 0x6CD5, 0x53D6, 0x5F97, 0x20, 0x81FA, 0x5357, 0x5E02,
                     0x20, 0x5929, 0x6C23, 0x8CC7, 0x6599])
              None\<rparr>)"
proof -
  have u: "axios_get (server (Some (str ''KEY'')) (answers 200 empty_location))
      (upstream_request (str ''KEY'') (Own [0x81FA, 0x5357, 0x5E02]))
    = Resolved \<lparr>status = 200, data = empty_location\<rparr>"
    by (simp add: example_upstream answers_def)
  have r: "get (data \<lparr>status = 200, data = empty_location\<rparr>) (str ''records'')
    = Inr (JObj [(str ''location'', JArr [])])"
    by (simp add: empty_location_def)
  have l: "get (JObj [(str ''location'', JArr [])]) (str ''location'') = Inr (JArr [])"
    by simp
  from empty_location_NoData [OF example_city example_key str_nonempty u r] l
  show ?thesis
    by simp
qed

text \<open>The claim as it was stated fails where \<open>records\<close> has no \<open>location\<close>: the answer
  to \<open>{records: {}}\<close> is HTTP 500, not 404.\<close>

theorem absent_location_counterexample:
  "getWeatherByCity (server (Some (str ''KEY'')) (answers 200 no_location))
     (weather_request ''Tainan'')
   = ([upstream_request (str ''KEY'') (Own [0x81FA, 0x5357, 0x5E02])], Sent ServerError)
   \<and> statusCode ServerError \<noteq> 404"
proof -
  have "reshape e (Own [0x81FA, 0x5357, 0x5E02]) no_location = Inl TypeError" for e
    by (simp add: reshape_def no_location_def)
  then show ?thesis
    by (simp add: valid_city_key [OF example_city example_key str_nonempty]
        example_upstream answers_def ServerError_def)
qed

section \<open>The city check and inherited properties\<close>

text \<open>
  C4 at \<open>GET /api/weather/constructor\<close>. The lowercased identifier is no key of the
  table, yet \<open>CITY_NAME_MAPPING["constructor"]\<close> is the function \<open>Object\<close>, which is
  truthy: the handler passes the check, issues an upstream request with that function
  as \<open>locationName\<close>, and here, the upstream answering with no location, sends HTTP 404.
\<close>

theorem constructor_passes_city_check:
  "map_of CITY_NAME_MAPPING
     (toLowerCase (server (Some (str ''KEY'')) (answers 200 empty_location))
        (cityId (weather_request ''constructor''))) = None
   \<and> getWeatherByCity (server (Some (str ''KEY'')) (answers 200 empty_location))
       (weather_request ''constructor'')
     = ([upstream_request (str ''KEY'') (Inherited (str ''constructor''))],
        Sent (NoData (Inherited (str ''constructor''))))
   \<and> statusCode (NoData (Inherited (str ''constructor''))) = 404"
proof -
  have c: "toLowerCase (server (Some (str ''KEY'')) (answers 200 empty_location))
        (cityId (weather_request ''constructor'')) = str ''constructor''"
    by (simp add: server_def weather_request_def toLowerCase_ascii_def str_def)
  have m: "map_of CITY_NAME_MAPPING (str ''constructor'') = None"
    by (simp add: CITY_NAME_MAPPING_def)
  have l: "lookup_city (str ''constructor'') = Some (Inherited (str ''constructor''))"
    by (simp add: lookup_city_def m Object_prototype_def)
  have r: "reshape e (Inherited (str ''constructor'')) empty_location
    = Inr (NoData (Inherited (str ''constructor'')))" for e
    by (simp add: reshape_def empty_location_def)
  have t: "try_block (server (Some (str ''KEY'')) (answers 200 empty_location))
      (Inherited (str ''constructor''))
    = ([upstream_request (str ''KEY'') (Inherited (str ''constructor''))],
       Inr (NoData (Inherited (str ''constructor''))))"
    by (simp add: try_block_key [OF example_key str_nonempty] example_upstream answers_def r)
  show ?thesis
    by (simp add: c m getWeatherByCity_def l t NoData_def)
qed

text \<open>Where the lowercased identifier is neither a key of the table nor the name of an
  inherited property, the check does what it is meant to: HTTP 400, no upstream
  request, and a message that quotes the identifier as given and lists the six keys.\<close>

lemma unsupported_city_InvalidCity:
  assumes "map_of CITY_NAME_MAPPING (toLowerCase e (cityId rq)) = None"
    and "toLowerCase e (cityId rq) \<notin> set Object_prototype"
  shows "getWeatherByCity e rq =
     ([], Sent \<lparr>statusCode = 400,
            body = Failure [0x7121, 0x6548, 0x7684, 0x57CE, 0x5E02, 0x20, 0x49, 0x44]
              (JStr ([0x4E0D, 0x652F, 0x63F4, 0x67E5, 0x8A62, 0x6B64, 0x57CE, 0x5E02, 0x3A, 0x20]
                     @ cityId rq @ [0xFF0C, 0x8ACB, 0x4F7F, 0x7528, 0x20]
                     @ str ''taipei, newtaipei, taoyuan, taichung, tainan, kaohsiung''))
              None\<rparr>)"
proof -
  have "lookup_city (toLowerCase e (cityId rq)) = None"
    using assms by (simp add: lookup_city_def)
  moreover have "join (str '', '') (map fst CITY_NAME_MAPPING)
      = str ''taipei, newtaipei, taoyuan, taichung, tainan, kaohsiung''"
    by (simp add: CITY_NAME_MAPPING_def str_def)
  ultimately show ?thesis
    by (simp add: getWeatherByCity_def InvalidCity_def)
qed


section \<open>Failures of the upstream call\<close>

text \<open>
  C10. The branch of the \<open>catch\<close> block for an error with a response reads
  \<open>error.response.data.message\<close>. When the body is \<open>null\<close> or \<open>undefined\<close> that read
  throws and nothing is sent. Otherwise the branch sends the upstream's status, as
  message the body's \<open>message\<close> when it is truthy and the fixed text of the source when
  it is not, and as details the body itself.
\<close>

theorem upstream_error_branch:
  "((data r = JNull \<or> data r = JUndefined) \<longrightarrow>
      catch_block (AxiosError (Some r)) = Threw TypeError)
   \<and> (data r \<noteq> JNull \<and> data r \<noteq> JUndefined \<longrightarrow>
      catch_block (AxiosError (Some r)) =
        Sent \<lparr>statusCode = status r,
              body = Failure (str ''CWA API '' @ [0x932F, 0x8AA4])
                (if truthy (field (data r) (str ''message''))
                 then field (data r) (str ''message'')
                 else JStr [0x7121, 0x6CD5, 0x53D6, 0x5F97, 0x5929, 0x6C23, 0x8CC7, 0x6599])
                (Some (data r))\<rparr>)"
proof (intro conjI impI)
  assume "data r = JNull \<or> data r = JUndefined"
  then show "catch_block (AxiosError (Some r)) = Threw TypeError"
    by auto
next
  assume "data r \<noteq> JNull \<and> data r \<noteq> JUndefined"
  then have "get (data r) (str ''message'') = Inr (field (data r) (str ''message''))"
    by (simp add: get_total)
  then show "catch_block (AxiosError (Some r)) =
        Sent \<lparr>statusCode = status r,
              body = Failure (str ''CWA API '' @ [0x932F, 0x8AA4])
                (if truthy (field (data r) (str ''message''))
                 then field (data r) (str ''message'')
                 else JStr [0x7121, 0x6CD5, 0x53D6, 0x5F97, 0x5929, 0x6C23, 0x8CC7, 0x6599])
                (Some (data r))\<rparr>"
    by (simp add: UpstreamError_def)
qed

theorem upstream_error_branch_witness:
  "catch_block (AxiosError (Some \<lparr>status = 503, data = JNull\<rparr>)) = Threw TypeError
   \<and> catch_block (AxiosError (Some \<lparr>status = 503, data = down_message\<rparr>)) =
       Sent \<lparr>statusCode = 503,
             body = Failure (str ''CWA API '' @ [0x932F, 0x8AA4]) (JStr (str ''down''))
               (Some down_message)\<rparr>"
proof -
  have f: "field down_message (str ''message'') = JStr (str ''down'')"
    by (simp add: field_def down_message_def)
  have n: "down_message \<noteq> JNull \<and> down_message \<noteq> JUndefined"
    by (simp add: down_message_def)
  have d: "str ''down'' \<noteq> []"
    by (simp add: str_def)
  from upstream_error_branch [of "\<lparr>status = 503, data = JNull\<rparr>"]
    upstream_error_branch [of "\<lparr>status = 503, data = down_message\<rparr>"] f n d
  show ?thesis
    by simp
qed

text \<open>
  C6, as the code has it. The upstream call of a valid city failed. Without a response
  the handler sends the HTTP 500 envelope with the fixed retry-later text. With a
  response whose body is neither \<open>null\<close> nor \<open>undefined\<close> it sends the upstream's status,
  the body under details, and as message the body's \<open>message\<close> when that is truthy, the
  fixed text of the source when it is not. Which of the two is decided by the presence
  of the response alone.
\<close>

theorem upstream_failure_mapping:
  assumes "map_of CITY_NAME_MAPPING (toLowerCase e (cityId rq)) = Some v"
    and "CWA_API_KEY e = Some key" and "key \<noteq> []"
    and "axios_get e (upstream_request key (Own v)) = Rejected x"
  shows "(x = None \<longrightarrow>
            getWeatherByCity e rq = ([upstream_request key (Own v)], Sent ServerError)
            \<and> statusCode ServerError = 500)
       \<and> (\<forall>r. x = Some r \<and> data r \<noteq> JNull \<and> data r \<noteq> JUndefined \<longrightarrow>
            getWeatherByCity e rq =
              ([upstream_request key (Own v)],
               Sent \<lparr>statusCode = status r,
                     body = Failure (str ''CWA API '' @ [0x932F, 0x8AA4])
                       (if truthy (field (data r) (str ''message''))
                        then field (data r) (str ''message'')
                        else JStr [0x7121, 0x6CD5, 0x53D6, 0x5F97, 0x5929, 0x6C23, 0x8CC7,
                                   0x6599])
                       (Some (data r))\<rparr>))"
proof -
  have h: "getWeatherByCity e rq = ([upstream_request key (Own v)], catch_block (AxiosError x))"
    using assms by (simp add: valid_city_key)
  have a: "x = None \<longrightarrow> catch_block (AxiosError x) = Sent ServerError"
    by simp
  have b: "\<forall>r. x = Some r \<and> data r \<noteq> JNull \<and> data r \<noteq> JUndefined \<longrightarrow>
      catch_block (AxiosError x) =
        Sent \<lparr>statusCode = status r,
              body = Failure (str ''CWA API '' @ [0x932F, 0x8AA4])
                (if truthy (field (data r) (str ''message''))
                 then field (data r) (str ''message'')
                 else JStr [0x7121, 0x6CD5, 0x53D6, 0x5F97, 0x5929, 0x6C23, 0x8CC7, 0x6599])
                (Some (data r))\<rparr>"
    by (auto simp: get_total UpstreamError_def)
  show ?thesis
    using a b by (simp add: h ServerError_def)
qed

theorem upstream_failure_witness:
  "getWeatherByCity (server (Some (str ''KEY'')) (fails 503 down_message))
     (weather_request ''Tainan'')
   = ([upstream_request (str ''KEY'') (Own [0x81FA, 0x5357, 0x5E02])],
      Sent \<lparr>statusCode = 503,
            body = Failure (str ''CWA API '' @ [0x932F, 0x8AA4]) (JStr (str ''down''))
              (Some down_message)\<rparr>)
   \<and> getWeatherByCity (server (Some (str ''KEY'')) unreachable) (weather_request ''Tainan'')
     = ([upstream_request (str ''KEY'') (Own [0x81FA, 0x5357, 0x5E02])], Sent ServerError)"
proof -
  have u: "axios_get (server (Some (str ''KEY'')) (fails 503 down_message))
      (upstream_request (str ''KEY'') (Own [0x81FA, 0x5357, 0x5E02]))
    = Rejected (Some \<lparr>status = 503, data = down_message\<rparr>)"
    by (simp add: example_upstream fails_def)
  have w: "axios_get (server (Some (str ''KEY'')) unreachable)
      (upstream_request (str ''KEY'') (Own [0x81FA, 0x5357, 0x5E02])) = Rejected None"
    by (simp add: example_upstream unreachable_def)
  have f: "field down_message (str ''message'') = JStr (str ''down'')"
    by (simp add: field_def down_message_def)
  have n: "down_message \<noteq> JNull \<and> down_message \<noteq> JUndefined"
    by (simp add: down_message_def)
  have d: "str ''down'' \<noteq> []"
    by (simp add: str_def)
  from upstream_failure_mapping [OF example_city example_key str_nonempty u]
    upstream_failure_mapping [OF example_city example_key str_nonempty w] f n d
  show ?thesis
    by simp
qed

text \<open>The claim as it was stated fails at HTTP 503 with the body \<open>{message: ""}\<close>: the
  body has a \<open>message\<close>, and the message sent is not it but the fixed text.\<close>

theorem empty_message_counterexample:
  "getWeatherByCity (server (Some (str ''KEY'')) (fails 503 empty_message))
     (weather_request ''Tainan'')
   = ([upstream_request (str ''KEY'') (Own [0x81FA, 0x5357, 0x5E02])],
      Sent \<lparr>statusCode = 503,
            body = Failure (str ''CWA API '' @ [0x932F, 0x8AA4])
              (JStr [0x7121, 0x6CD5, 0x53D6, 0x5F97, 0x5929, 0x6C23, 0x8CC7, 0x6599])
              (Some empty_message)\<rparr>)
   \<and> get empty_message (str ''message'') = Inr (JStr [])
   \<and> JStr [0x7121, 0x6CD5, 0x53D6, 0x5F97, 0x5929, 0x6C23, 0x8CC7, 0x6599] \<noteq> JStr []"
  by (simp add: valid_city_key [OF example_city example_key str_nonempty]
      example_upstream fails_def empty_message_def UpstreamError_def)

section \<open>Reshaping a well-formed response\<close>

lemma is_object_get: "is_object v \<Longrightarrow> get v k = Inr (field v k)"
  by (cases v) (simp_all add: field_def)

lemma copied_Nil [simp]: "copied g tag [] i d = d"
  by (simp add: copied_def tagged_def)

lemma copied_Cons:
  "copied g tag (e # es) i d =
     copied g tag es i (if field e (str ''elementName'') = JStr tag then g (value_at e i) else d)"
  by (simp add: copied_def tagged_def split: list.splits)

lemma well_formed_element_reads:
  assumes "well_formed_element n element" and "i < n"
  shows "get element (str ''time'') = Inr (field element (str ''time''))"
    and "idx (field element (str ''time'')) i = Inr (entry element i)"
    and "get (entry element i) (str ''parameter'') = Inr (field (entry element i) (str ''parameter''))"
    and "get (field (entry element i) (str ''parameter'')) (str ''parameterName'') = Inr (value_at element i)"
    and "get element (str ''elementName'') = Inr (field element (str ''elementName''))"
    and "is_string (value_at element i)"
    and "get (entry element i) k = Inr (field (entry element i) k)"
proof -
  from assms obtain ts where o: "is_object element" and t: "field element (str ''time'') = JArr ts"
    and l: "length ts = n" and w: "list_all well_formed_entry ts"
    by (auto simp: well_formed_element_def split: jv.splits)
  from w l assms(2) have e: "well_formed_entry (ts ! i)"
    by (simp add: list_all_length)
  have en: "entry element i = ts ! i"
    using t l assms(2) by (simp add: entry_def item_def)
  show "get element (str ''time'') = Inr (field element (str ''time''))"
    using o by (rule is_object_get)
  show "idx (field element (str ''time'')) i = Inr (entry element i)"
    using t l assms(2) en by simp
  show "get (entry element i) (str ''parameter'') = Inr (field (entry element i) (str ''parameter''))"
    using e en by (simp add: well_formed_entry_def is_object_get)
  show "get (field (entry element i) (str ''parameter'')) (str ''parameterName'') = Inr (value_at element i)"
    using e en by (simp add: well_formed_entry_def is_object_get value_at_def)
  show "get element (str ''elementName'') = Inr (field element (str ''elementName''))"
    using o by (rule is_object_get)
  show "is_string (value_at element i)"
    using e en by (simp add: well_formed_entry_def value_at_def)
  show "get (entry element i) k = Inr (field (entry element i) k)"
    using e en by (simp add: well_formed_entry_def is_object_get)
qed

lemma plus_percent_string: "is_string v \<Longrightarrow> plus_percent ts v = Inr (text_of v @ str ''%'')"
  by (cases v) simp_all

lemma element_callback_well_formed:
  assumes "well_formed_element n element" and "i < n"
  shows "element_callback e i f element =
     Inr (let name = field element (str ''elementName''); p = value_at element i in
          if name = JStr (str ''Wx'') then f\<lparr>weather := p\<rparr>
          else if name = JStr (str ''PoP'') then f\<lparr>rain := percent p\<rparr>
          else if name = JStr (str ''MinT'') then f\<lparr>minTemp := p\<rparr>
          else if name = JStr (str ''MaxT'') then f\<lparr>maxTemp := p\<rparr>
          else if name = JStr (str ''CI'') then f\<lparr>comfort := p\<rparr>
          else if name = JStr (str ''WS'') then f\<lparr>windSpeed := p\<rparr>
          else f)"
  using well_formed_element_reads(1-6) [OF assms]
  by (simp add: element_callback_def parameter_at_def plus_percent_string percent_def Let_def)

lemma forEach_elements_well_formed:
  assumes "list_all (well_formed_element n) es" and "i < n"
  shows "forEach_elements e i f es =
     Inr \<lparr>startTime = startTime f, endTime = endTime f,
          weather = copied id (str ''Wx'') es i (weather f),
          rain = copied percent (str ''PoP'') es i (rain f),
          minTemp = copied id (str ''MinT'') es i (minTemp f),
          maxTemp = copied id (str ''MaxT'') es i (maxTemp f),
          comfort = copied id (str ''CI'') es i (comfort f),
          windSpeed = copied id (str ''WS'') es i (windSpeed f)\<rparr>"
  using assms(1)
proof (induction es arbitrary: f)
  case Nil
  show ?case by simp
next
  case (Cons x es)
  then have x: "well_formed_element n x" and es: "list_all (well_formed_element n) es"
    by simp_all
  show ?case
    by (simp add: element_callback_well_formed [OF x assms(2)] Cons.IH [OF es] copied_Cons Let_def)
qed


lemma build_forecast_well_formed:
  assumes "list_all (well_formed_element n) es" and "es \<noteq> []" and "i < n"
  shows "build_forecast e (JArr es) i = Inr (slot es i)"
proof -
  from assms(2) obtain e0 rest where c: "es = e0 # rest"
    by (cases es) auto
  with assms(1) have h: "well_formed_element n e0"
    by simp
  have "build_forecast e (JArr (e0 # rest)) i = Inr (slot (e0 # rest) i)"
    using well_formed_element_reads(1,2,7) [OF h assms(3)]
      forEach_elements_well_formed [OF assms(1,3)]
    by (simp add: build_forecast_def slot_def c)
  then show ?thesis
    by (simp add: c)
qed

lemma for_loop_well_formed:
  assumes "list_all (well_formed_element n) es" and "es \<noteq> []"
  shows "i \<le> n \<Longrightarrow> for_loop e (JArr es) (JNum (int n)) i acc = Inr (acc @ map (slot es) [i..<n])"
proof (induction "n - i" arbitrary: i acc)
  case 0
  then have "i = n" by simp
  then show ?case
    by (simp add: for_loop.simps [of _ _ _ n])
next
  case (Suc k)
  then have l: "i < n" and k: "k = n - Suc i" and s: "Suc i \<le> n"
    by simp_all
  have "for_loop e (JArr es) (JNum (int n)) i acc
      = for_loop e (JArr es) (JNum (int n)) (Suc i) (acc @ [slot es i])"
    using l by (simp add: for_loop.simps [of _ _ _ i] build_forecast_well_formed [OF assms l])
  also have "\<dots> = Inr ((acc @ [slot es i]) @ map (slot es) [Suc i..<n])"
    using k s by (rule Suc.hyps(1))
  finally show ?case
    using l by (simp add: upt_conv_Cons)
qed

lemma reshape_well_formed:
  assumes "well_formed d"
  shows "reshape e name d =
     Inr \<lparr>statusCode = 200,
          body = Success
            \<lparr>city = field (item (field (field d (str ''records'')) (str ''location'')) 0)
                      (str ''locationName''),
             updateTime = field (field d (str ''records'')) (str ''datasetDescription''),
             forecasts = map (slot (elements (weatherElements_of d))) [0..<timeCount_of d]\<rparr>\<rparr>"
proof -
  let ?recs = "field d (str ''records'')"
  let ?loc = "field ?recs (str ''location'')"
  let ?ld = "item ?loc 0"
  from assms obtain ls es where d: "is_object d" and r: "is_object ?recs" and o: "is_object ?ld"
    and ls: "?loc = JArr ls" and es: "weatherElements_of d = JArr es" and ne: "es \<noteq> []"
    and w: "list_all (well_formed_element (timeCount_of d)) es"
    by (auto simp: well_formed_def split: jv.splits)
  have i0: "idx ?loc 0 = Inr ?ld"
    using ls by (simp add: item_def)
  have t: "truthy ?ld"
    using o by (cases ?ld) simp_all
  have we: "field ?ld (str ''weatherElement'') = JArr es"
    using es by (simp add: weatherElements_of_def)
  from ne obtain e0 rest where c: "es = e0 # rest"
    by (cases es) auto
  with w have h: "well_formed_element (timeCount_of d) e0"
    by simp
  then obtain ts where ho: "is_object e0" and ht: "field e0 (str ''time'') = JArr ts"
    and hl: "length ts = timeCount_of d"
    by (auto simp: well_formed_element_def split: jv.splits)
  have f: "for_loop e (JArr (e0 # rest)) (JNum (int (timeCount_of d))) 0 []
      = Inr ([] @ map (slot es) [0..<timeCount_of d])"
    using for_loop_well_formed [OF w ne, where i = 0 and acc = "[]" and e = e] by (simp add: c)
  show ?thesis
    using hl f
    by (simp add: reshape_def is_object_get [OF d] is_object_get [OF r] i0 t
        is_object_get [OF o] we c is_object_get [OF ho] ht es)
qed


lemma sample_well_formed: "well_formed sample"
  by (simp add: well_formed_def weatherElements_of_def timeCount_of_def field_def item_def
      well_formed_element_def well_formed_entry_def sample_def sample_elements_def
      sample_element_def sample_entry_def)


lemma well_formed_elements:
  assumes "well_formed d"
  shows "list_all (well_formed_element (timeCount_of d)) (elements (weatherElements_of d))"
  using assms by (auto simp: well_formed_def split: jv.splits)

lemma well_formed_outcome:
  assumes "map_of CITY_NAME_MAPPING (toLowerCase e (cityId rq)) = Some v"
    and "CWA_API_KEY e = Some key" and "key \<noteq> []"
    and "axios_get e (upstream_request key (Own v)) = Resolved r"
    and "well_formed (data r)"
  shows "getWeatherByCity e rq =
     ([upstream_request key (Own v)],
      Sent \<lparr>statusCode = 200,
            body = Success
              \<lparr>city = field (item (field (field (data r) (str ''records'')) (str ''location'')) 0)
                        (str ''locationName''),
               updateTime = field (field (data r) (str ''records'')) (str ''datasetDescription''),
               forecasts = map (slot (elements (weatherElements_of (data r))))
                             [0..<timeCount_of (data r)]\<rparr>\<rparr>)"
  using assms(1-4) by (simp add: valid_city_key reshape_well_formed [OF assms(5)])

lemma slot_rain:
  assumes "list_all (well_formed_element n) es" and "i < n"
    and "tagged (str ''PoP'') es = [p]"
  shows "\<exists>s. value_at p i = JStr s \<and> rain (slot es i) = JStr (s @ str ''%'')"
proof -
  have "p \<in> set (tagged (str ''PoP'') es)"
    by (simp add: assms(3))
  then have "p \<in> set es"
    by (simp add: tagged_def)
  with assms(1) have "well_formed_element n p"
    by (simp add: list_all_iff)
  then have "is_string (value_at p i)"
    using assms(2) by (rule well_formed_element_reads(6))
  then obtain s where "value_at p i = JStr s"
    by (cases "value_at p i") simp_all
  then show ?thesis
    by (simp add: slot_def copied_def assms(3) percent_def)
qed

text \<open>
  C1. The upstream answered a valid city with a well-formed body whose first weather
  element has \<open>N\<close> time entries. Then the handler sends HTTP 200 with
  \<open>{success: true, data}\<close>, and \<open>data.forecasts\<close> has \<open>N\<close> slots; the slot of index \<open>i\<close>
  has the \<open>startTime\<close> and \<open>endTime\<close> of index \<open>i\<close> of the first element's \<open>time\<close> array,
  and as \<open>rain\<close> the \<open>parameterName\<close> that the \<open>PoP\<close> element has at index \<open>i\<close>, followed
  by \<open>%\<close>.
\<close>

theorem well_formed_response_reshaped:
  assumes "map_of CITY_NAME_MAPPING (toLowerCase e (cityId rq)) = Some v"
    and "CWA_API_KEY e = Some key" and "key \<noteq> []"
    and "axios_get e (upstream_request key (Own v)) = Resolved r"
    and "well_formed (data r)"
  shows "\<exists>w. getWeatherByCity e rq =
           ([upstream_request key (Own v)], Sent \<lparr>statusCode = 200, body = Success w\<rparr>)
       \<and> length (forecasts w) = timeCount_of (data r)
       \<and> (\<forall>i < timeCount_of (data r).
            startTime (forecasts w ! i) =
              field (entry (hd (elements (weatherElements_of (data r)))) i) (str ''startTime'')
          \<and> endTime (forecasts w ! i) =
              field (entry (hd (elements (weatherElements_of (data r)))) i) (str ''endTime'')
          \<and> (\<forall>p. tagged (str ''PoP'') (elements (weatherElements_of (data r))) = [p] \<longrightarrow>
                (\<exists>s. value_at p i = JStr s
                   \<and> rain (forecasts w ! i) = JStr (s @ str ''%''))))"
proof -
  let ?es = "elements (weatherElements_of (data r))"
  let ?w = "\<lparr>city = field (item (field (field (data r) (str ''records'')) (str ''location'')) 0)
                        (str ''locationName''),
             updateTime = field (field (data r) (str ''records'')) (str ''datasetDescription''),
             forecasts = map (slot ?es) [0..<timeCount_of (data r)]\<rparr>"
  have a: "getWeatherByCity e rq =
      ([upstream_request key (Own v)], Sent \<lparr>statusCode = 200, body = Success ?w\<rparr>)"
    using assms by (rule well_formed_outcome)
  have b: "length (forecasts ?w) = timeCount_of (data r)"
    by simp
  have c: "\<forall>i < timeCount_of (data r).
            startTime (forecasts ?w ! i) = field (entry (hd ?es) i) (str ''startTime'')
          \<and> endTime (forecasts ?w ! i) = field (entry (hd ?es) i) (str ''endTime'')
          \<and> (\<forall>p. tagged (str ''PoP'') ?es = [p] \<longrightarrow>
                (\<exists>s. value_at p i = JStr s
                   \<and> rain (forecasts ?w ! i) = JStr (s @ str ''%'')))"
    using slot_rain [OF well_formed_elements [OF assms(5)]]
    by (simp add: slot_def)
  from a b c show ?thesis
    by blast
qed

text \<open>
  C3, as the code has it. For a city identifier whose lowercased form is a key of the
  table, and with the credential set, the handler issues one upstream request, whose
  \<open>locationName\<close> is the mapped name; when the upstream answers it with a well-formed
  body, the response is HTTP 200 with \<open>success: true\<close>.
\<close>

theorem valid_city_one_upstream_request:
  assumes "map_of CITY_NAME_MAPPING (toLowerCase e (cityId rq)) = Some v"
    and "CWA_API_KEY e = Some key" and "key \<noteq> []"
  shows "fst (getWeatherByCity e rq) =
           [\<lparr>url = str ''https://opendata.cwa.gov.tw/api/v1/rest/datastore/F-C0032-001'',
             Authorization = key, locationName = Own v\<rparr>]
       \<and> (\<forall>r. axios_get e (upstream_request key (Own v)) = Resolved r \<and> well_formed (data r)
            \<longrightarrow> (\<exists>w. snd (getWeatherByCity e rq) =
                   Sent \<lparr>statusCode = 200, body = Success w\<rparr>))"
proof (intro conjI allI impI)
  show "fst (getWeatherByCity e rq) =
           [\<lparr>url = str ''https://opendata.cwa.gov.tw/api/v1/rest/datastore/F-C0032-001'',
             Authorization = key, locationName = Own v\<rparr>]"
    by (simp add: valid_city_key [OF assms] upstream_request_def)
next
  fix r
  assume "axios_get e (upstream_request key (Own v)) = Resolved r \<and> well_formed (data r)"
  then show "\<exists>w. snd (getWeatherByCity e rq) = Sent \<lparr>statusCode = 200, body = Success w\<rparr>"
    by (simp add: well_formed_outcome [OF assms])
qed

lemma sample_upstream:
  "axios_get (server (Some (str ''KEY'')) (answers 200 sample))
     (upstream_request (str ''KEY'') (Own [0x81FA, 0x5357, 0x5E02]))
   = Resolved \<lparr>status = 200, data = sample\<rparr>"
  by (simp add: example_upstream answers_def)

lemma sample_timeCount: "timeCount_of sample = 2"
  by (simp add: timeCount_of_def weatherElements_of_def field_def item_def sample_def
      sample_elements_def sample_element_def)

theorem well_formed_response_witness:
  "well_formed (data \<lparr>status = 200, data = sample\<rparr>)
   \<and> timeCount_of sample = 2
   \<and> (\<exists>w. getWeatherByCity (server (Some (str ''KEY'')) (answers 200 sample))
              (weather_request ''Tainan'')
            = ([upstream_request (str ''KEY'') (Own [0x81FA, 0x5357, 0x5E02])],
               Sent \<lparr>statusCode = 200, body = Success w\<rparr>)
          \<and> length (forecasts w) = 2)"
proof -
  have w: "well_formed (data \<lparr>status = 200, data = sample\<rparr>)"
    by (simp add: sample_well_formed)
  from well_formed_response_reshaped [OF example_city example_key str_nonempty sample_upstream w]
  show ?thesis
    using w by (auto simp: sample_timeCount)
qed

theorem valid_city_witness:
  "fst (getWeatherByCity (server (Some (str ''KEY'')) (answers 200 sample))
          (weather_request ''Tainan''))
     = [\<lparr>url = str ''https://opendata.cwa.gov.tw/api/v1/rest/datastore/F-C0032-001'',
         Authorization = str ''KEY'', locationName = Own [0x81FA, 0x5357, 0x5E02]\<rparr>]
   \<and> (\<exists>w. snd (getWeatherByCity (server (Some (str ''KEY'')) (answers 200 sample))
                 (weather_request ''Tainan''))
            = Sent \<lparr>statusCode = 200, body = Success w\<rparr>)"
proof -
  have w: "well_formed (data \<lparr>status = 200, data = sample\<rparr>)"
    by (simp add: sample_well_formed)
  from valid_city_one_upstream_request [OF example_city example_key str_nonempty]
    sample_upstream w
  show ?thesis
    by blast
qed

text \<open>The claim as it was stated fails where the credential is not set: for the valid
  identifier \<open>Tainan\<close> no upstream request is issued and the response is HTTP 500, though
  the upstream would have answered with a well-formed body.\<close>

theorem valid_city_no_credential_counterexample:
  "map_of CITY_NAME_MAPPING
     (toLowerCase (server None (answers 200 sample)) (cityId (weather_request ''Tainan'')))
     = Some [0x81FA, 0x5357, 0x5E02]
   \<and> getWeatherByCity (server None (answers 200 sample)) (weather_request ''Tainan'')
     = ([], Sent ServerMisconfigured)
   \<and> statusCode ServerMisconfigured = 500"
  by (simp add: example_city valid_city_try_block [OF example_city] try_block_def example_key
      ServerMisconfigured_def)

section \<open>Conversions by the runtime\<close>

text \<open>Where \<open>timeCount\<close> is the string \<open>"1"\<close> the loop runs once, and an array as
  \<open>parameterName\<close> is joined before the \<open>%\<close>: the handler sends one slot.\<close>

lemma decimal_digit: "n < 10 \<Longrightarrow> decimal n = [48 + n]"
  by (subst decimal.simps) simp

lemma counted_sample_outcome:
  "getWeatherByCity (server (Some (str ''KEY'')) (answers 200 counted_sample))
     (weather_request ''Tainan'')
   = ([upstream_request (str ''KEY'') (Own [0x81FA, 0x5357, 0x5E02])],
      Sent \<lparr>statusCode = 200,
            body = Success
              \<lparr>city = JStr (str ''X''), updateTime = JStr (str ''36h''),
               forecasts = [\<lparr>startTime = JStr (str ''06:00''), endTime = JStr (str ''18:00''),
                             weather = JStr [], rain = JStr (str ''1,2%''), minTemp = JStr [],
                             maxTemp = JStr [], comfort = JStr [], windSpeed = JStr []\<rparr>]\<rparr>\<rparr>)"
proof -
  let ?e = "server (Some (str ''KEY'')) (answers 200 counted_sample)"
  let ?entry = "JObj [(str ''startTime'', JStr (str ''06:00'')),
                      (str ''endTime'', JStr (str ''18:00'')),
                      (str ''parameter'',
                       JObj [(str ''parameterName'', JArr [JNum 1, JNum 2])])]"
  let ?w = "JArr [JObj [(str ''elementName'', JStr (str ''PoP'')),
                        (str ''time'', JObj [(str ''0'', ?entry),
                                             (str ''length'', JStr (str ''1''))])]]"
  let ?s = "\<lparr>startTime = JStr (str ''06:00''), endTime = JStr (str ''18:00''),
             weather = JStr [], rain = JStr (str ''1,2%''), minTemp = JStr [],
             maxTemp = JStr [], comfort = JStr [], windSpeed = JStr []\<rparr>"
  have z: "decimal 0 = str ''0''" "decimal (Suc 0) = str ''1''" "decimal 2 = str ''2''"
    by (simp_all add: decimal_digit str_def)
  have n: "ToNumber ?e (JStr (str ''1'')) = Some (Num 1)"
    by (simp add: server_def Number_of_def str_def)
  have t: "ToString ?e (JArr [JNum 1, JNum 2]) = Some (str ''1,2'')"
    by (simp add: server_def z str_def)
  have p: "str ''1,2'' @ str ''%'' = str ''1,2%''"
    by (simp add: str_def)
  have b: "build_forecast ?e ?w 0 = Inr ?s"
    by (simp add: build_forecast_def element_callback_def parameter_at_def z t p)
  have l: "for_loop ?e ?w (JStr (str ''1'')) 0 [] = Inr [?s]"
    by (simp add: for_loop.simps [of _ _ _ 0] for_loop.simps [of _ _ _ "Suc 0"] b n)
  have "reshape ?e (Own [0x81FA, 0x5357, 0x5E02]) counted_sample
      = Inr \<lparr>statusCode = 200,
            body = Success \<lparr>city = JStr (str ''X''), updateTime = JStr (str ''36h''),
                            forecasts = [?s]\<rparr>\<rparr>"
    using l by (simp add: reshape_def counted_sample_def)
  then show ?thesis
    by (simp add: valid_city_key [OF example_city example_key str_nonempty]
        example_upstream answers_def)
qed

section \<open>Unknown tags and absent elements\<close>




















end
